theory Spec2Isabelle
  imports Main "HOL-Library.AList" "HOL-Library.Multiset"
begin

section \<open>The ticket dashboard script: frontend/auth.js, final variant\<close>

text \<open>
  The source file holds the login script and three successive variants of the dashboard
  script. The model follows the last variant (from the second redeclaration of
  \<^verbatim>\<open>isSupportUser\<close> and \<^verbatim>\<open>currentTicketId\<close> to the end of the file), the one
  the specification calls final.

  Conventions of the embedding.
  \<^item> The module-level variables, the browser storage, the address of the page and the part
    of the document the functions read or write are fields of one record, \<open>state\<close>.
    Every function takes the state and returns the new one.
  \<^item> The server is a parameter \<open>net\<close>: it answers the list of all requests issued so
    far, the last one being the request to answer, with a rejection or a response. The
    list of requests is itself a field of the state, so that "no network call" is the
    statement that this field does not change.
  \<^item> An \<^verbatim>\<open>async\<close> function runs to its end in one step: the awaits are sequential,
    and no other handler runs in between. A call that the source does not await, and the
    two loaders it starts together, run at the place of the call, one after the other;
    the statements that follow such a call write other fields and other storage keys
    than the call's continuation does, so only the order of the entries in the logs can
    differ.
  \<^item> A thrown exception is the \<open>Inl\<close> branch of a sum, caught where the source has its
    \<^verbatim>\<open>catch\<close>.
  \<^item> Markup is modelled by the data it shows; console output, colours and scroll
    positions are left out. Elements of the static page are taken as present; elements
    the script itself inserts (the support grids, the ticket controls) are optional.
  \<^item> Strings are byte strings, the UTF-8 encoding of the text; the Cyrillic literals of
    the source are written as their bytes. User-facing messages are the constructors of
    \<open>msg\<close>.
\<close>

subsection \<open>Values and truthiness\<close>

datatype jsval = JUndefined | JNull | JBool bool | JNum int | JStr string | JObject

fun truthy :: "jsval \<Rightarrow> bool" where
  "truthy JUndefined = False"
| "truthy JNull = False"
| "truthy (JBool b) = b"
| "truthy (JNum n) = (n \<noteq> 0)"
| "truthy (JStr s) = (s \<noteq> [])"
| "truthy JObject = True"

text \<open>A ticket id variable holds \<^verbatim>\<open>null\<close> (\<open>None\<close>) or a string; the empty string is
  falsy as well.\<close>

definition truthy_id :: "string option \<Rightarrow> bool" where
  "truthy_id t = (case t of None \<Rightarrow> False | Some s \<Rightarrow> s \<noteq> [])"

definition id_text :: "string option \<Rightarrow> string" where
  "id_text t = (case t of None \<Rightarrow> ''null'' | Some s \<Rightarrow> s)"

text \<open>\<^verbatim>\<open>String.prototype.trim\<close> removes white space and line terminators from both
  ends: the code points 9 to 13 and 32, U+00A0, U+1680, U+2000 to U+200A, U+2028, U+2029,
  U+202F, U+205F, U+3000 and U+FEFF, here as their UTF-8 bytes. \<open>strip\<close> removes every
  leading sequence of the given list; the end of a string is the start of its reverse.\<close>

definition white_space :: "string list" where
  "white_space =
     [[CHR 0x09], [CHR 0x0A], [CHR 0x0B], [CHR 0x0C], [CHR 0x0D], [CHR 0x20],
      [CHR 0xC2, CHR 0xA0],
      [CHR 0xE1, CHR 0x9A, CHR 0x80],
      [CHR 0xE2, CHR 0x80, CHR 0x80],
      [CHR 0xE2, CHR 0x80, CHR 0x81],
      [CHR 0xE2, CHR 0x80, CHR 0x82],
      [CHR 0xE2, CHR 0x80, CHR 0x83],
      [CHR 0xE2, CHR 0x80, CHR 0x84],
      [CHR 0xE2, CHR 0x80, CHR 0x85],
      [CHR 0xE2, CHR 0x80, CHR 0x86],
      [CHR 0xE2, CHR 0x80, CHR 0x87],
      [CHR 0xE2, CHR 0x80, CHR 0x88],
      [CHR 0xE2, CHR 0x80, CHR 0x89],
      [CHR 0xE2, CHR 0x80, CHR 0x8A],
      [CHR 0xE2, CHR 0x80, CHR 0xA8],
      [CHR 0xE2, CHR 0x80, CHR 0xA9],
      [CHR 0xE2, CHR 0x80, CHR 0xAF],
      [CHR 0xE2, CHR 0x81, CHR 0x9F],
      [CHR 0xE3, CHR 0x80, CHR 0x80],
      [CHR 0xEF, CHR 0xBB, CHR 0xBF]]"

definition leading :: "string list \<Rightarrow> string \<Rightarrow> string option" where
  "leading ws s = find (\<lambda>w. take (length w) s = w) ws"

function strip :: "string list \<Rightarrow> string \<Rightarrow> string" where
  "strip ws s =
     (case leading ws s of
        None \<Rightarrow> s
      | Some w \<Rightarrow> if w = [] then s else strip ws (drop (length w) s))"
  by pat_completeness auto
termination
proof (relation "measure (\<lambda>(ws, s). length s)")
  show "wf (measure (\<lambda>(ws, s). length s))" by simp
next
  fix ws :: "string list" and s w :: string
  assume found: "leading ws s = Some w" and nonempty: "w \<noteq> []"
  from found have "take (length w) s = w"
    by (auto simp add: leading_def find_Some_iff)
  then have "length (take (length w) s) = length w"
    by simp
  then have "length w \<le> length s"
    by simp
  with nonempty show "((ws, drop (length w) s), (ws, s)) \<in> measure (\<lambda>(ws, s). length s)"
    by (cases w) simp_all
qed

declare strip.simps [simp del]

definition trim :: "string \<Rightarrow> string" where
  "trim s = rev (strip (map rev white_space) (rev (strip white_space s)))"

text \<open>What trimming is to achieve: a string made of white space only is a concatenation
  of the sequences above; a trimmed string neither starts nor ends with one.\<close>

definition whites :: "string \<Rightarrow> bool" where
  "whites s = (\<exists>xs. set xs \<subseteq> set white_space \<and> concat xs = s)"

definition starts_white :: "string \<Rightarrow> bool" where
  "starts_white s = (leading white_space s \<noteq> None)"

definition ends_white :: "string \<Rightarrow> bool" where
  "ends_white s = (leading (map rev white_space) (rev s) \<noteq> None)"

text \<open>The tokens of a \<^verbatim>\<open>class\<close> attribute, split at ASCII white space, each once;
  \<^verbatim>\<open>classList.add\<close> refuses the empty token and a token with white space in it.\<close>

definition html_space :: "char \<Rightarrow> bool" where
  "html_space c = (c \<in> set [CHR 0x09, CHR 0x0A, CHR 0x0C, CHR 0x0D, CHR 0x20])"



definition classList_remove :: "string list \<Rightarrow> string list \<Rightarrow> string list" where
  "classList_remove ts cl = filter (\<lambda>t. t \<notin> set ts) cl"

subsection \<open>Literals of the source\<close>

text \<open>The status and priority names, as the UTF-8 bytes of the Cyrillic words (in
  transliteration: otkryt, v rabote, zakryt, v\_processe, reshen, v\_rabote, ne\_opredelyon;
  nizkij, srednij, vysokij, kriticheskij).\<close>

definition status_open :: string where
  "status_open = [CHR 0xD0, CHR 0xBE, CHR 0xD1, CHR 0x82, CHR 0xD0, CHR 0xBA, CHR 0xD1, CHR 0x80,
     CHR 0xD1, CHR 0x8B, CHR 0xD1, CHR 0x82]"

definition status_in_work :: string where
  "status_in_work = [CHR 0xD0, CHR 0xB2, CHR 0x20, CHR 0xD1, CHR 0x80, CHR 0xD0, CHR 0xB0, CHR 0xD0,
     CHR 0xB1, CHR 0xD0, CHR 0xBE, CHR 0xD1, CHR 0x82, CHR 0xD0, CHR 0xB5]"

definition status_closed :: string where
  "status_closed = [CHR 0xD0, CHR 0xB7, CHR 0xD0, CHR 0xB0, CHR 0xD0, CHR 0xBA, CHR 0xD1, CHR 0x80,
     CHR 0xD1, CHR 0x8B, CHR 0xD1, CHR 0x82]"

definition status_in_progress :: string where
  "status_in_progress = [CHR 0xD0, CHR 0xB2, CHR 0x5F, CHR 0xD0, CHR 0xBF, CHR 0xD1, CHR 0x80,
     CHR 0xD0, CHR 0xBE, CHR 0xD1, CHR 0x86, CHR 0xD0, CHR 0xB5, CHR 0xD1, CHR 0x81, CHR 0xD1,
     CHR 0x81, CHR 0xD0, CHR 0xB5]"

definition status_resolved :: string where
  "status_resolved = [CHR 0xD1, CHR 0x80, CHR 0xD0, CHR 0xB5, CHR 0xD1, CHR 0x88, CHR 0xD0, CHR 0xB5,
     CHR 0xD0, CHR 0xBD]"

definition status_v_rabote :: string where
  "status_v_rabote = [CHR 0xD0, CHR 0xB2, CHR 0x5F, CHR 0xD1, CHR 0x80, CHR 0xD0, CHR 0xB0, CHR 0xD0,
     CHR 0xB1, CHR 0xD0, CHR 0xBE, CHR 0xD1, CHR 0x82, CHR 0xD0, CHR 0xB5]"

definition priority_undetermined :: string where
  "priority_undetermined = [CHR 0xD0, CHR 0xBD, CHR 0xD0, CHR 0xB5, CHR 0x5F, CHR 0xD0, CHR 0xBE,
     CHR 0xD0, CHR 0xBF, CHR 0xD1, CHR 0x80, CHR 0xD0, CHR 0xB5, CHR 0xD0, CHR 0xB4, CHR 0xD0, CHR 0xB5,
     CHR 0xD0, CHR 0xBB, CHR 0xD1, CHR 0x91, CHR 0xD0, CHR 0xBD]"

definition priority_low :: string where
  "priority_low = [CHR 0xD0, CHR 0xBD, CHR 0xD0, CHR 0xB8, CHR 0xD0, CHR 0xB7, CHR 0xD0, CHR 0xBA,
     CHR 0xD0, CHR 0xB8, CHR 0xD0, CHR 0xB9]"

definition priority_medium :: string where
  "priority_medium = [CHR 0xD1, CHR 0x81, CHR 0xD1, CHR 0x80, CHR 0xD0, CHR 0xB5, CHR 0xD0, CHR 0xB4,
     CHR 0xD0, CHR 0xBD, CHR 0xD0, CHR 0xB8, CHR 0xD0, CHR 0xB9]"

definition priority_high :: string where
  "priority_high = [CHR 0xD0, CHR 0xB2, CHR 0xD1, CHR 0x8B, CHR 0xD1, CHR 0x81, CHR 0xD0, CHR 0xBE,
     CHR 0xD0, CHR 0xBA, CHR 0xD0, CHR 0xB8, CHR 0xD0, CHR 0xB9]"

definition priority_critical :: string where
  "priority_critical = [CHR 0xD0, CHR 0xBA, CHR 0xD1, CHR 0x80, CHR 0xD0, CHR 0xB8, CHR 0xD1, CHR 0x82,
     CHR 0xD0, CHR 0xB8, CHR 0xD1, CHR 0x87, CHR 0xD0, CHR 0xB5, CHR 0xD1, CHR 0x81, CHR 0xD0, CHR 0xBA,
     CHR 0xD0, CHR 0xB8, CHR 0xD0, CHR 0xB9]"

text \<open>The messages shown to the user and carried by thrown errors. \<open>ServerText\<close> is text
  taken from a response, \<open>EngineText\<close> the message of an error the runtime raised; the
  constructors with an argument are the source's concatenations.\<close>

datatype engine_error = FetchRejected | TypeError | SyntaxError | InvalidCharacterError

datatype msg =
    TicketsLoadError
  | TicketCreateError
  | NewTicketsLoadError
  | AcceptedTicketsLoadError
  | TicketLoadError
  | MessageSendError
  | AcceptedButPriorityNotUpdated
  | TicketAccepted
  | PriorityUpdated
  | TicketClosed
  | ServerText string
  | EngineText engine_error
  | AssignError string
  | PriorityError string
  | CloseError string
  | WhileAccepting msg
  | WhileUpdatingPriority msg
  | WhileClosing msg

datatype error = Engine engine_error | Error msg

definition classList_add :: "string \<Rightarrow> string list \<Rightarrow> error + string list" where
  "classList_add t cl =
     (if t = [] then Inl (Engine SyntaxError)
      else if list_ex html_space t then Inl (Engine InvalidCharacterError)
      else Inr (if t \<in> set cl then cl else cl @ [t]))"

fun message_of :: "error \<Rightarrow> msg" where
  "message_of (Engine e) = EngineText e"
| "message_of (Error m) = m"

subsection \<open>Tickets, messages, requests and responses\<close>

record ticket =
  ticket_id :: string
  title :: string
  description :: string
  category :: string
  priority :: string
  ticket_status :: string
  reporter_name :: string
  reporter_email :: string
  created_at :: string
  comments_count :: int

record message =
  content :: string
  author_name :: string
  author_email :: string
  is_support :: bool
  msg_created_at :: string

record user =
  full_name :: string
  email :: string
  username :: string
  is_support_staff :: bool

text \<open>The body of a response, by the shape the script reads: text that is not JSON, the
  value null, an object with none of the fields read, and the shapes of the endpoints
  (the capability check with its \<^verbatim>\<open>is_support\<close> value, an error with its
  \<^verbatim>\<open>detail\<close>, a page of tickets with \<^verbatim>\<open>total_pages\<close>, one ticket, the
  messages of a ticket, one message).\<close>

datatype payload =
    NotJson
  | JsonNull
  | JsonOther
  | SupportCheck jsval
  | Detail string
  | TicketPage "ticket list" int
  | TicketDetail ticket
  | MessageList "message list"
  | MessageItem message

record response =
  status :: nat
  body_text :: string
  body_json :: payload

definition ok :: "response \<Rightarrow> bool" where
  "ok r = (200 \<le> status r \<and> status r \<le> 299)"

datatype param = PStr string | PNum int

datatype endpoint =
    SupportCheckUrl
  | TicketsQueryUrl "(string \<times> param) list"
  | UserStatsUrl string
  | TicketsUrl
  | TicketUrl string
  | TicketMessagesUrl string
  | UnassignedUrl
  | AssignedUrl
  | AssignUrl string
  | MarkReadUrl string

datatype json_body =
    TicketForm string string string string string
  | MessageData string string string
  | PriorityPatch string
  | StatusPatch string

record options =
  opt_method :: "string option"
  opt_headers :: "(string \<times> string) list"
  opt_body :: "json_body option"

definition no_options :: options where
  "no_options = \<lparr>opt_method = None, opt_headers = [], opt_body = None\<rparr>"

record request =
  req_url :: endpoint
  req_method :: "string option"
  req_headers :: "(string \<times> string) list"
  req_body :: "json_body option"

datatype fetch_result = Rejected | Resolved response

type_synonym network = "request list \<Rightarrow> fetch_result"

subsection \<open>The page\<close>

datatype storage_op = RemoveItem string | SetItem string string

datatype callback = ConnectWebSocket

datatype grid = Untouched | EmptyState | Cards "ticket list"

datatype support_grid = Placeholder | NoTickets | SupportCards "ticket list" bool

datatype page_button = Prev bool int | PageButton int bool | Next bool int

datatype badge_text = RawText string | PriorityText string | StatusText string

datatype chat_item = NoMessagesYet | Bubble bool string string string | UndefinedBubble

record stats =
  totalTickets :: nat
  openTickets :: nat
  progressTickets :: nat
  resolvedTickets :: nat

record form =
  ticketTitle :: string
  ticketDescription :: string
  ticketCategory :: string
  reporterName :: string
  reporterEmail :: string
  reporterName_readonly :: bool
  reporterEmail_readonly :: bool
  submitTicket_disabled :: bool
  submitTicket_spinner :: bool

record filter_controls =
  statusFilter :: string
  categoryFilter :: string
  priorityFilter :: string
  searchInput :: string

record profile_view =
  profile_full_name :: string
  profile_email :: string
  profile_role_support :: bool
  profileFullName :: string
  profileUsername :: string
  profileEmail :: string
  user_tickets_count :: nat
  user_open_tickets :: nat
  user_resolved_tickets :: nat

record ticket_details =
  shown :: ticket
  status_badge :: "string list \<times> badge_text"
  priority_badge :: "string list \<times> badge_text"

record chat_modal =
  modal_display :: string
  modal_active :: bool
  supportModalTicketTitle :: string
  supportTicketDetails :: "ticket_details option"
  chatMessages :: "chat_item list"
  chatInput :: string
  chatPriority :: "string option"

record accept_modal =
  accept_display :: string
  acceptPriority :: string

record socket =
  has_onclose :: bool
  is_closed :: bool

record state =
  currentPage :: int
  totalPages :: int
  currentFilters :: "(string \<times> string) list"
  websocket :: "socket option"
  userEmail :: string
  currentUser :: "user option"
  authToken :: string
  isSupportUser :: jsval
  currentTicketId :: "string option"
  currentAcceptTicketId :: "string option"
  localStorage :: "(string \<times> string) list"
  storageLog :: "storage_op list"
  location_href :: string
  requests :: "request list"
  timers :: "(callback \<times> nat) list"
  notifications :: "(msg \<times> string) list"
  loading :: bool
  activeNav :: "string option"
  activeSection :: "string option"
  ticketsGrid :: grid
  ticketStats :: stats
  pagination :: "page_button list"
  createForm :: form
  filters :: filter_controls
  supportNav :: nat
  unassignedTicketsGrid :: "support_grid option"
  assignedTicketsGrid :: "support_grid option"
  profile :: profile_view
  acceptTicketModal :: accept_modal
  supportTicketModal :: chat_modal
  body_modal_open :: bool

subsection \<open>Storage and the gateway\<close>

definition removeItem :: "string \<Rightarrow> state \<Rightarrow> state" where
  "removeItem k st = st\<lparr>localStorage := AList.delete k (localStorage st),
                        storageLog := storageLog st @ [RemoveItem k]\<rparr>"

definition setItem :: "string \<Rightarrow> string \<Rightarrow> state \<Rightarrow> state" where
  "setItem k v st = st\<lparr>localStorage := AList.update k v (localStorage st),
                       storageLog := storageLog st @ [SetItem k v]\<rparr>"

definition getAuthHeaders :: "state \<Rightarrow> (string \<times> string) list" where
  "getAuthHeaders st =
     [(''Authorization'', ''Bearer '' @ authToken st), (''Content-Type'', ''application/json'')]"

text \<open>Object spread: the properties of the second object are written over the first,
  a new key goes to the end.\<close>

definition spread :: "('k \<times> 'v) list \<Rightarrow> ('k \<times> 'v) list \<Rightarrow> ('k \<times> 'v) list" where
  "spread base extra = fold (\<lambda>(k, v). AList.update k v) extra base"

definition fetch_request :: "state \<Rightarrow> endpoint \<Rightarrow> options \<Rightarrow> request" where
  "fetch_request st url opts =
     \<lparr>req_url = url, req_method = opt_method opts,
      req_headers = spread (getAuthHeaders st) (opt_headers opts),
      req_body = opt_body opts\<rparr>"

text \<open>\<^verbatim>\<open>authorizedFetch\<close>: the result is a thrown error (the fetch was rejected), no value
  (the early \<^verbatim>\<open>return\<close> after a 401) or the response.\<close>

definition authorizedFetch ::
  "network \<Rightarrow> endpoint \<Rightarrow> options \<Rightarrow> state \<Rightarrow> (error + response option) \<times> state" where
  "authorizedFetch net url opts st =
     (let st1 = st\<lparr>requests := requests st @ [fetch_request st url opts]\<rparr> in
      case net (requests st1) of
        Rejected \<Rightarrow> (Inl (Engine FetchRejected), st1)
      | Resolved response \<Rightarrow>
          if status response = 401
          then (Inr None,
                (removeItem ''user_data'' (removeItem ''auth_token'' st1))
                  \<lparr>location_href := ''login.html''\<rparr>)
          else (Inr (Some response), st1))"

text \<open>Every caller reads a property of the result at once (\<^verbatim>\<open>response.ok\<close>,
  \<^verbatim>\<open>response.status\<close> or \<^verbatim>\<open>response.json()\<close>); on the missing value of the 401
  path that read throws a TypeError.\<close>

definition read_response :: "(error + response option) \<times> state \<Rightarrow> (error + response) \<times> state" where
  "read_response res =
     (case res of
        (Inl e, s) \<Rightarrow> (Inl e, s)
      | (Inr None, s) \<Rightarrow> (Inl (Engine TypeError), s)
      | (Inr (Some r), s) \<Rightarrow> (Inr r, s))"

text \<open>\<^verbatim>\<open>response.json()\<close> rejects on a body that is not JSON.\<close>

definition json :: "response \<Rightarrow> error + payload" where
  "json r = (case body_json r of NotJson \<Rightarrow> Inl (Engine SyntaxError) | p \<Rightarrow> Inr p)"

subsection \<open>Notifications and the loading indicator\<close>

text \<open>\<open>notifications\<close> is the list of the toasts shown, in order, each with its type. The
  removal of a toast after five seconds is not part of the model.\<close>

definition showNotification :: "msg \<Rightarrow> string \<Rightarrow> state \<Rightarrow> state" where
  "showNotification m type st = st\<lparr>notifications := notifications st @ [(m, type)]\<rparr>"

definition showLoading :: "bool \<Rightarrow> state \<Rightarrow> state" where
  "showLoading show st = st\<lparr>loading := show\<rparr>"

subsection \<open>The support capability and the two queues\<close>

text \<open>\<^verbatim>\<open>data.is_support\<close>: a property read on null throws, on an object without the
  property it is undefined.\<close>

definition is_support_of :: "payload \<Rightarrow> error + jsval" where
  "is_support_of p =
     (case p of
        JsonNull \<Rightarrow> Inl (Engine TypeError)
      | SupportCheck v \<Rightarrow> Inr v
      | _ \<Rightarrow> Inr JUndefined)"

definition checkSupportStatus :: "network \<Rightarrow> state \<Rightarrow> state" where
  "checkSupportStatus net st =
     (case read_response (authorizedFetch net SupportCheckUrl no_options st) of
        (Inl e, st1) \<Rightarrow> st1\<lparr>isSupportUser := JBool False\<rparr>
      | (Inr response, st1) \<Rightarrow>
          if ok response
          then (case json response of
                  Inl e \<Rightarrow> st1\<lparr>isSupportUser := JBool False\<rparr>
                | Inr data \<Rightarrow>
                    (case is_support_of data of
                       Inl e \<Rightarrow> st1\<lparr>isSupportUser := JBool False\<rparr>
                     | Inr v \<Rightarrow> st1\<lparr>isSupportUser := v\<rparr>))
          else st1)"

text \<open>\<^verbatim>\<open>setupSupportInterface\<close> inserts two navigation tabs and two sections, each
  section with its grid. \<open>supportNav\<close> counts the insertions; a lookup by id finds the
  first element of that id, so a grid that exists stays the one found.\<close>

definition setupSupportInterface :: "state \<Rightarrow> state" where
  "setupSupportInterface st =
     (if \<not> truthy (isSupportUser st) then st
      else st\<lparr>supportNav := supportNav st + 1,
              unassignedTicketsGrid :=
                (case unassignedTicketsGrid st of None \<Rightarrow> Some Placeholder | Some g \<Rightarrow> Some g),
              assignedTicketsGrid :=
                (case assignedTicketsGrid st of None \<Rightarrow> Some Placeholder | Some g \<Rightarrow> Some g)\<rparr>)"

definition get_grid :: "state \<Rightarrow> string \<Rightarrow> support_grid option" where
  "get_grid st containerId =
     (if containerId = ''unassignedTicketsGrid'' then unassignedTicketsGrid st
      else if containerId = ''assignedTicketsGrid'' then assignedTicketsGrid st
      else None)"

definition set_grid :: "string \<Rightarrow> support_grid \<Rightarrow> state \<Rightarrow> state" where
  "set_grid containerId g st =
     (if containerId = ''unassignedTicketsGrid'' then st\<lparr>unassignedTicketsGrid := Some g\<rparr>
      else if containerId = ''assignedTicketsGrid'' then st\<lparr>assignedTicketsGrid := Some g\<rparr>
      else st)"

text \<open>\<^verbatim>\<open>data.tickets\<close>, read by the queue loaders: undefined (\<open>None\<close>) on an object
  without the property.\<close>

definition tickets_of :: "payload \<Rightarrow> error + ticket list option" where
  "tickets_of p =
     (case p of
        JsonNull \<Rightarrow> Inl (Engine TypeError)
      | TicketPage ts n \<Rightarrow> Inr (Some ts)
      | _ \<Rightarrow> Inr None)"

definition renderSupportTickets ::
  "ticket list option \<Rightarrow> string \<Rightarrow> bool \<Rightarrow> state \<Rightarrow> error + state" where
  "renderSupportTickets tickets containerId showAcceptButton st =
     (case get_grid st containerId of
        None \<Rightarrow> Inr st
      | Some g \<Rightarrow>
          (case tickets of
             None \<Rightarrow> Inl (Engine TypeError)
           | Some ts \<Rightarrow>
               if ts = [] then Inr (set_grid containerId NoTickets st)
               else Inr (set_grid containerId (SupportCards ts showAcceptButton) st)))"

definition loadUnassignedTickets :: "network \<Rightarrow> state \<Rightarrow> state" where
  "loadUnassignedTickets net st =
     (if \<not> truthy (isSupportUser st) then st
      else
        (case read_response (authorizedFetch net UnassignedUrl no_options st) of
           (Inl e, st1) \<Rightarrow> showNotification NewTicketsLoadError ''error'' st1
         | (Inr response, st1) \<Rightarrow>
             (case (if \<not> ok response then Inl (Error NewTicketsLoadError)
                    else case json response of
                           Inl e \<Rightarrow> Inl e
                         | Inr data \<Rightarrow>
                             (case tickets_of data of
                                Inl e \<Rightarrow> Inl e
                              | Inr ts \<Rightarrow> renderSupportTickets ts ''unassignedTicketsGrid'' True st1)) of
                Inl e \<Rightarrow> showNotification NewTicketsLoadError ''error'' st1
              | Inr st2 \<Rightarrow> st2)))"

definition loadAssignedTickets :: "network \<Rightarrow> state \<Rightarrow> state" where
  "loadAssignedTickets net st =
     (if \<not> truthy (isSupportUser st) then st
      else
        (case read_response (authorizedFetch net AssignedUrl no_options st) of
           (Inl e, st1) \<Rightarrow> showNotification AcceptedTicketsLoadError ''error'' st1
         | (Inr response, st1) \<Rightarrow>
             (case (if \<not> ok response then Inl (Error AcceptedTicketsLoadError)
                    else case json response of
                           Inl e \<Rightarrow> Inl e
                         | Inr data \<Rightarrow>
                             (case tickets_of data of
                                Inl e \<Rightarrow> Inl e
                              | Inr ts \<Rightarrow> renderSupportTickets ts ''assignedTicketsGrid'' False st1)) of
                Inl e \<Rightarrow> showNotification AcceptedTicketsLoadError ''error'' st1
              | Inr st2 \<Rightarrow> st2)))"

subsection \<open>The ticket list\<close>

text \<open>The comparator of \<^verbatim>\<open>loadUserTickets\<close>:
  \<^verbatim>\<open>(statusOrder[a.status] || 1) - (statusOrder[b.status] || 1)\<close>. The lookup in the
  object literal finds its three own properties and, for the names below, the members
  every object inherits from \<^verbatim>\<open>Object.prototype\<close>: functions, or the prototype itself,
  which are truthy and not numbers, so the difference is NaN (\<open>None\<close>).\<close>

definition statusOrder :: "(string \<times> int) list" where
  "statusOrder = [(status_open, 1), (status_in_work, 2), (status_closed, 3)]"

definition inherited_keys :: "string list" where
  "inherited_keys =
     [''constructor'', ''toString'', ''toLocaleString'', ''valueOf'', ''hasOwnProperty'',
      ''isPrototypeOf'', ''propertyIsEnumerable'', ''__proto__'', ''__defineGetter__'',
      ''__defineSetter__'', ''__lookupGetter__'', ''__lookupSetter__'']"

datatype rank = Rank int | NotANumber

definition rank_or_1 :: "string \<Rightarrow> rank" where
  "rank_or_1 s =
     (case map_of statusOrder s of
        Some r \<Rightarrow> if r = 0 then Rank 1 else Rank r
      | None \<Rightarrow> if s \<in> set inherited_keys then NotANumber else Rank 1)"

definition compareTickets :: "ticket \<Rightarrow> ticket \<Rightarrow> int option" where
  "compareTickets a b =
     (case (rank_or_1 (ticket_status a), rank_or_1 (ticket_status b)) of
        (Rank x, Rank y) \<Rightarrow> Some (x - y)
      | _ \<Rightarrow> None)"


text \<open>\<^verbatim>\<open>Array.prototype.sort\<close> reads a NaN from the comparator as 0 and is stable:
  elements the comparator does not separate keep their order. With a comparator that
  compares keys there is one such arrangement, the one insertion from the right builds;
  with a comparator that is not consistent the standard leaves the order to the engine,
  and the insertion below is one such engine.\<close>

definition sort_compare :: "('a \<Rightarrow> 'a \<Rightarrow> int option) \<Rightarrow> 'a \<Rightarrow> 'a \<Rightarrow> int" where
  "sort_compare cmp x y = (case cmp x y of None \<Rightarrow> 0 | Some v \<Rightarrow> v)"

fun insert_by :: "('a \<Rightarrow> 'a \<Rightarrow> int option) \<Rightarrow> 'a \<Rightarrow> 'a list \<Rightarrow> 'a list" where
  "insert_by cmp x [] = [x]"
| "insert_by cmp x (y # ys) =
     (if sort_compare cmp x y \<le> 0 then x # y # ys else y # insert_by cmp x ys)"

definition array_sort :: "('a \<Rightarrow> 'a \<Rightarrow> int option) \<Rightarrow> 'a list \<Rightarrow> 'a list" where
  "array_sort cmp xs = foldr (insert_by cmp) xs []"

definition renderEmptyState :: "state \<Rightarrow> state" where
  "renderEmptyState st = st\<lparr>ticketsGrid := EmptyState\<rparr>"

definition renderTickets :: "ticket list \<Rightarrow> state \<Rightarrow> state" where
  "renderTickets tickets st =
     (if tickets = [] then renderEmptyState st else st\<lparr>ticketsGrid := Cards tickets\<rparr>)"

definition updateStats :: "ticket list \<Rightarrow> state \<Rightarrow> state" where
  "updateStats tickets st =
     st\<lparr>ticketStats :=
          \<lparr>totalTickets = length tickets,
           openTickets = length (filter (\<lambda>t. ticket_status t = status_open) tickets),
           progressTickets = length (filter (\<lambda>t. ticket_status t = status_in_progress) tickets),
           resolvedTickets =
             length (filter (\<lambda>t. ticket_status t = status_resolved \<or> ticket_status t = status_closed)
                       tickets)\<rparr>\<rparr>"

definition renderPagination :: "int \<Rightarrow> state \<Rightarrow> state" where
  "renderPagination total_pages st =
     (let st1 = st\<lparr>totalPages := total_pages\<rparr>; p = currentPage st1 in
      if total_pages \<le> 1 then st1\<lparr>pagination := []\<rparr>
      else st1\<lparr>pagination :=
                 [Prev (p \<le> 1) (p - 1)]
                 @ map (\<lambda>i. PageButton i (i = p)) [max 1 (p - 2) .. min total_pages (p + 2)]
                 @ [Next (p \<ge> total_pages) (p + 1)]\<rparr>)"

definition list_params :: "state \<Rightarrow> (string \<times> param) list" where
  "list_params st =
     spread [(''reporter_email'', PStr (userEmail st)), (''page'', PNum (currentPage st)),
             (''page_size'', PNum 12)]
            (map (\<lambda>(k, v). (k, PStr v)) (currentFilters st))"

definition loadUserTickets_failed :: "state \<Rightarrow> state" where
  "loadUserTickets_failed st = renderEmptyState (showNotification TicketsLoadError ''error'' st)"

definition loadUserTickets :: "network \<Rightarrow> state \<Rightarrow> state" where
  "loadUserTickets net st =
     (case read_response
             (authorizedFetch net (TicketsQueryUrl (list_params st)) no_options (showLoading True st)) of
        (Inl e, st1) \<Rightarrow> showLoading False (loadUserTickets_failed st1)
      | (Inr response, st1) \<Rightarrow>
          if \<not> ok response then showLoading False (loadUserTickets_failed st1)
          else
            (case json response of
               Inl e \<Rightarrow> showLoading False (loadUserTickets_failed st1)
             | Inr data \<Rightarrow>
                 (case data of
                    TicketPage tickets total_pages \<Rightarrow>
                      (let sortedTickets = array_sort compareTickets tickets in
                       showLoading False
                         (renderPagination total_pages
                            (updateStats sortedTickets (renderTickets sortedTickets st1))))
                  | _ \<Rightarrow> showLoading False (loadUserTickets_failed st1))))"

definition applyFilters :: "network \<Rightarrow> state \<Rightarrow> state" where
  "applyFilters net st =
     (let statusFilter_v = statusFilter (filters st);
          categoryFilter_v = categoryFilter (filters st);
          priorityFilter_v = priorityFilter (filters st);
          searchInput_v = searchInput (filters st);
          f0 = [];
          f1 = (if statusFilter_v \<noteq> [] then AList.update ''status'' statusFilter_v f0 else f0);
          f2 = (if categoryFilter_v \<noteq> [] then AList.update ''category'' categoryFilter_v f1 else f1);
          f3 = (if priorityFilter_v \<noteq> [] then AList.update ''priority'' priorityFilter_v f2 else f2);
          f4 = (if trim searchInput_v \<noteq> []
                then AList.update ''search_text'' (trim searchInput_v) f3 else f3)
      in loadUserTickets net (st\<lparr>currentFilters := f4, currentPage := 1\<rparr>))"

subsection \<open>The creation form, the tabs and the profile\<close>

definition prefillTicketForm :: "state \<Rightarrow> state" where
  "prefillTicketForm st =
     (case currentUser st of
        None \<Rightarrow> st
      | Some u \<Rightarrow>
          (let f = createForm st;
               f1 = (if full_name u \<noteq> []
                     then f\<lparr>reporterName := full_name u, reporterName_readonly := True\<rparr> else f);
               f2 = (if email u \<noteq> []
                     then f1\<lparr>reporterEmail := email u, reporterEmail_readonly := True\<rparr> else f1)
           in st\<lparr>createForm := f2\<rparr>))"

definition resetCreateForm :: "state \<Rightarrow> state" where
  "resetCreateForm st =
     st\<lparr>createForm := (createForm st)\<lparr>ticketTitle := [], ticketCategory := [],
                                         ticketDescription := []\<rparr>\<rparr>"

text \<open>\<^verbatim>\<open>data.tickets || []\<close> of \<^verbatim>\<open>loadUserStats\<close>, which reads the body without
  looking at \<^verbatim>\<open>response.ok\<close> and only logs what it catches.\<close>

definition tickets_or_empty :: "payload \<Rightarrow> error + ticket list" where
  "tickets_or_empty p =
     (case p of
        JsonNull \<Rightarrow> Inl (Engine TypeError)
      | TicketPage ts n \<Rightarrow> Inr ts
      | _ \<Rightarrow> Inr [])"

definition loadUserStats :: "network \<Rightarrow> state \<Rightarrow> state" where
  "loadUserStats net st =
     (case currentUser st of
        None \<Rightarrow> st
      | Some u \<Rightarrow>
          (case read_response (authorizedFetch net (UserStatsUrl (email u)) no_options st) of
             (Inl e, st1) \<Rightarrow> st1
           | (Inr response, st1) \<Rightarrow>
               (case json response of
                  Inl e \<Rightarrow> st1
                | Inr data \<Rightarrow>
                    (case tickets_or_empty data of
                       Inl e \<Rightarrow> st1
                     | Inr tickets \<Rightarrow>
                         st1\<lparr>profile := (profile st1)
                               \<lparr>user_tickets_count := length tickets,
                                user_open_tickets :=
                                  length (filter (\<lambda>t. ticket_status t = status_open
                                                     \<or> ticket_status t = status_in_progress) tickets),
                                user_resolved_tickets :=
                                  length (filter (\<lambda>t. ticket_status t = status_resolved
                                                     \<or> ticket_status t = status_closed) tickets)\<rparr>\<rparr>))))"

definition loadProfileData :: "network \<Rightarrow> state \<Rightarrow> state" where
  "loadProfileData net st =
     (case currentUser st of
        None \<Rightarrow> st
      | Some u \<Rightarrow>
          loadUserStats net
            (st\<lparr>profile := (profile st)
                  \<lparr>profile_full_name := full_name u, profile_email := email u,
                   profile_role_support := is_support_staff u,
                   profileFullName := full_name u, profileUsername := username u,
                   profileEmail := email u\<rparr>\<rparr>))"

text \<open>The links and sections \<^verbatim>\<open>switchTab\<close> can find: those of the static page, and the
  support ones once \<^verbatim>\<open>setupSupportInterface\<close> has inserted them.\<close>

definition tab_exists :: "state \<Rightarrow> string \<Rightarrow> bool" where
  "tab_exists st tabName =
     (tabName \<in> set [''home'', ''create'', ''profile'']
      \<or> (tabName \<in> set [''unassigned'', ''assigned''] \<and> 0 < supportNav st))"

definition switchTab :: "network \<Rightarrow> string \<Rightarrow> state \<Rightarrow> state" where
  "switchTab net tabName st =
     (let st1 = st\<lparr>activeNav := (if tab_exists st tabName then Some tabName else None),
                   activeSection := (if tab_exists st tabName then Some tabName else None)\<rparr>
      in if tabName = ''home'' then loadUserTickets net st1
         else if tabName = ''create'' then prefillTicketForm st1
         else if tabName = ''unassigned'' then loadUnassignedTickets net st1
         else if tabName = ''assigned'' then loadAssignedTickets net st1
         else if tabName = ''profile'' then loadProfileData net st1
         else st1)"

text \<open>\<^verbatim>\<open>error.detail || '...'\<close> of the failure branch of \<^verbatim>\<open>handleTicketSubmit\<close>.\<close>

definition detail_or :: "msg \<Rightarrow> payload \<Rightarrow> error" where
  "detail_or fallback p =
     (case p of
        JsonNull \<Rightarrow> Engine TypeError
      | Detail d \<Rightarrow> (if d \<noteq> [] then Error (ServerText d) else Error fallback)
      | _ \<Rightarrow> Error fallback)"

definition handleTicketSubmit_try :: "network \<Rightarrow> state \<Rightarrow> error option \<times> state" where
  "handleTicketSubmit_try net st =
     (let f = createForm st;
          body = TicketForm (ticketTitle f) (ticketDescription f) (ticketCategory f)
                            (reporterName f) (reporterEmail f)
      in case read_response
                (authorizedFetch net TicketsUrl
                   \<lparr>opt_method = Some ''POST'', opt_headers = [], opt_body = Some body\<rparr> st) of
           (Inl e, st1) \<Rightarrow> (Some e, st1)
         | (Inr response, st1) \<Rightarrow>
             if \<not> ok response
             then (case json response of
                     Inl e \<Rightarrow> (Some e, st1)
                   | Inr err \<Rightarrow> (Some (detail_or TicketCreateError err), st1))
             else
               (case json response of
                  Inl e \<Rightarrow> (Some e, st1)
                | Inr ticket \<Rightarrow>
                    (let st2 = switchTab net ''home'' (resetCreateForm st1);
                         st3 = setItem ''userEmail'' (reporterEmail f) st2
                     in (None, st3\<lparr>userEmail := reporterEmail f\<rparr>))))"

definition handleTicketSubmit :: "network \<Rightarrow> state \<Rightarrow> state" where
  "handleTicketSubmit net st =
     (let originalText = submitTicket_spinner (createForm st);
          st0 = st\<lparr>createForm := (createForm st)\<lparr>submitTicket_disabled := True,
                                                  submitTicket_spinner := True\<rparr>\<rparr>;
          st1 = (case handleTicketSubmit_try net st0 of
                   (None, s) \<Rightarrow> s
                 | (Some e, s) \<Rightarrow> showNotification (message_of e) ''error'' s)
      in st1\<lparr>createForm := (createForm st1)\<lparr>submitTicket_disabled := False,
                                              submitTicket_spinner := originalText\<rparr>\<rparr>)"

subsection \<open>The live-update channel\<close>

text \<open>\<open>throws\<close> says whether the constructor of the socket throws at this attempt. A
  socket that was made has its \<^verbatim>\<open>onclose\<close> handler; the handler asks for one new attempt
  in 5000 ms, the \<^verbatim>\<open>catch\<close> for one in 10000 ms.\<close>

definition connectWebSocket :: "bool \<Rightarrow> state \<Rightarrow> state" where
  "connectWebSocket throws st =
     (if throws then st\<lparr>timers := timers st @ [(ConnectWebSocket, 10000)]\<rparr>
      else st\<lparr>websocket := Some \<lparr>has_onclose = True, is_closed = False\<rparr>\<rparr>)"

definition websocket_onclose :: "state \<Rightarrow> state" where
  "websocket_onclose st = st\<lparr>timers := timers st @ [(ConnectWebSocket, 5000)]\<rparr>"

text \<open>What the browser does to the channel: it closes the open socket, which runs the
  handler of that socket, and it runs the oldest timer when its delay has passed.\<close>

datatype channel_event = SocketCloses | TimerFires bool

fun channel_step :: "channel_event \<Rightarrow> state \<Rightarrow> state" where
  "channel_step SocketCloses st =
     (case websocket st of
        None \<Rightarrow> st
      | Some s \<Rightarrow>
          if is_closed s then st
          else (let st1 = st\<lparr>websocket := Some (s\<lparr>is_closed := True\<rparr>)\<rparr>
                in if has_onclose s then websocket_onclose st1 else st1))"
| "channel_step (TimerFires throws) st =
     (case timers st of
        [] \<Rightarrow> st
      | (ConnectWebSocket, delay) # rest \<Rightarrow> connectWebSocket throws (st\<lparr>timers := rest\<rparr>))"

definition channel_run :: "channel_event list \<Rightarrow> state \<Rightarrow> state" where
  "channel_run evs st = fold channel_step evs st"

text \<open>The channel is alive when its socket is open with the handler in place, or an
  attempt is scheduled.\<close>

definition channel_alive :: "state \<Rightarrow> bool" where
  "channel_alive st =
     ((case websocket st of None \<Rightarrow> False | Some s \<Rightarrow> has_onclose s \<and> \<not> is_closed s)
      \<or> timers st \<noteq> [])"

subsection \<open>Accepting a ticket\<close>


definition json_headers :: "(string \<times> string) list" where
  "json_headers = [(''Content-Type'', ''application/json'')]"



subsection \<open>The support chat\<close>

definition priority_options :: "string list" where
  "priority_options = [priority_low, priority_medium, priority_high, priority_critical]"

text \<open>The value a select shows after the given value is chosen: a value that is none of
  its options selects nothing.\<close>

definition select_value :: "string \<Rightarrow> string" where
  "select_value v = (if v \<in> set priority_options then v else [])"





definition hide_support_modal :: "state \<Rightarrow> state" where
  "hide_support_modal st =
     st\<lparr>supportTicketModal := (supportTicketModal st)\<lparr>modal_active := False,
                                                        modal_display := ''none''\<rparr>,
        body_modal_open := False\<rparr>"








text \<open>\<^verbatim>\<open>updateChatPriorityDisplay\<close> gets \<^verbatim>\<open>updatedTicket.priority\<close>, which is
  undefined (\<open>None\<close>) when the body has no such property. It sets the select, then, with
  the details on show, takes the five known priority classes off the badge, adds the new
  class (which throws on white space in the name) and writes the text of
  \<^verbatim>\<open>getPriorityText\<close>, which throws on undefined.\<close>

definition updateChatPriorityDisplay :: "string option \<Rightarrow> state \<Rightarrow> error option \<times> state" where
  "updateChatPriorityDisplay newPriority st =
     (let shown_as = (case newPriority of None \<Rightarrow> ''undefined'' | Some p \<Rightarrow> p);
          m = supportTicketModal st;
          m1 = (case chatPriority m of
                  None \<Rightarrow> m
                | Some v \<Rightarrow> m\<lparr>chatPriority := Some (select_value shown_as)\<rparr>)
      in case supportTicketDetails m1 of
           None \<Rightarrow> (None, st\<lparr>supportTicketModal := m1\<rparr>)
         | Some d \<Rightarrow>
             (let removed =
                    classList_remove
                      (map (\<lambda>p. ''priority-'' @ p)
                         [priority_low, priority_medium, priority_high, priority_critical,
                          priority_undetermined])
                      (fst (priority_badge d))
              in case classList_add (''priority-'' @ shown_as) removed of
                   Inl e \<Rightarrow>
                     (Some e,
                      st\<lparr>supportTicketModal :=
                           m1\<lparr>supportTicketDetails :=
                                 Some (d\<lparr>priority_badge := (removed, snd (priority_badge d))\<rparr>)\<rparr>\<rparr>)
                 | Inr added \<Rightarrow>
                     (case newPriority of
                        None \<Rightarrow>
                          (Some (Engine TypeError),
                           st\<lparr>supportTicketModal :=
                                m1\<lparr>supportTicketDetails :=
                                      Some (d\<lparr>priority_badge := (added, snd (priority_badge d))\<rparr>)\<rparr>\<rparr>)
                      | Some p \<Rightarrow>
                          (None,
                           st\<lparr>supportTicketModal :=
                                m1\<lparr>supportTicketDetails :=
                                      Some (d\<lparr>priority_badge := (added, PriorityText p)\<rparr>)\<rparr>\<rparr>))))"

definition updateChatStatusDisplay :: "string \<Rightarrow> state \<Rightarrow> error option \<times> state" where
  "updateChatStatusDisplay newStatus st =
     (let m = supportTicketModal st in
      case supportTicketDetails m of
        None \<Rightarrow> (None, st)
      | Some d \<Rightarrow>
          (let removed =
                 classList_remove
                   (map (\<lambda>p. ''status-'' @ p)
                      [status_open, status_v_rabote, status_resolved, status_closed])
                   (fst (status_badge d))
           in case classList_add (''status-'' @ newStatus) removed of
                Inl e \<Rightarrow>
                  (Some e,
                   st\<lparr>supportTicketModal :=
                        m\<lparr>supportTicketDetails :=
                             Some (d\<lparr>status_badge := (removed, snd (status_badge d))\<rparr>)\<rparr>\<rparr>)
              | Inr added \<Rightarrow>
                  (None,
                   st\<lparr>supportTicketModal :=
                        m\<lparr>supportTicketDetails :=
                             Some (d\<lparr>status_badge := (added, StatusText newStatus)\<rparr>)\<rparr>\<rparr>)))"

text \<open>\<^verbatim>\<open>updatedTicket.priority\<close>: undefined when the body has no such property.\<close>

definition priority_of :: "payload \<Rightarrow> error + string option" where
  "priority_of p =
     (case p of
        JsonNull \<Rightarrow> Inl (Engine TypeError)
      | TicketDetail t \<Rightarrow> Inr (Some (priority t))
      | _ \<Rightarrow> Inr None)"

definition updateTicketPriority_try ::
  "network \<Rightarrow> string option \<Rightarrow> string \<Rightarrow> state \<Rightarrow> error option \<times> state" where
  "updateTicketPriority_try net ticketId priority_v st =
     (case read_response
             (authorizedFetch net (TicketUrl (id_text ticketId))
                \<lparr>opt_method = Some ''PATCH'', opt_headers = json_headers,
                 opt_body = Some (PriorityPatch priority_v)\<rparr> st) of
        (Inl e, st1) \<Rightarrow> (Some e, st1)
      | (Inr response, st1) \<Rightarrow>
          if \<not> ok response then (Some (Error (PriorityError (body_text response))), st1)
          else
            (case json response of
               Inl e \<Rightarrow> (Some e, st1)
             | Inr updatedTicket \<Rightarrow>
                 (case priority_of updatedTicket of
                    Inl e \<Rightarrow> (Some e, st1)
                  | Inr p \<Rightarrow>
                      (case updateChatPriorityDisplay p st1 of
                         (Some e, st2) \<Rightarrow> (Some e, st2)
                       | (None, st2) \<Rightarrow>
                           (let st3 = showNotification PriorityUpdated ''success'' st2
                            in (None, loadAssignedTickets net (loadUnassignedTickets net st3)))))))"

definition updateTicketPriority :: "network \<Rightarrow> string option \<Rightarrow> state \<Rightarrow> state" where
  "updateTicketPriority net ticketId st =
     (if \<not> truthy_id ticketId \<or> ticketId \<noteq> currentTicketId st then st
      else case chatPriority (supportTicketModal st) of
             None \<Rightarrow> st
           | Some priority_v \<Rightarrow>
               (case updateTicketPriority_try net ticketId priority_v st of
                  (None, s) \<Rightarrow> s
                | (Some e, s) \<Rightarrow>
                    showNotification (WhileUpdatingPriority (message_of e)) ''error'' s))"

definition closeTicket_try :: "network \<Rightarrow> string option \<Rightarrow> state \<Rightarrow> error option \<times> state" where
  "closeTicket_try net ticketId st =
     (case read_response
             (authorizedFetch net (TicketUrl (id_text ticketId))
                \<lparr>opt_method = Some ''PATCH'', opt_headers = json_headers,
                 opt_body = Some (StatusPatch status_closed)\<rparr> st) of
        (Inl e, st1) \<Rightarrow> (Some e, st1)
      | (Inr response, st1) \<Rightarrow>
          if \<not> ok response then (Some (Error (CloseError (body_text response))), st1)
          else
            (case json response of
               Inl e \<Rightarrow> (Some e, st1)
             | Inr updatedTicket \<Rightarrow>
                 (case updateChatStatusDisplay status_closed st1 of
                    (Some e, st2) \<Rightarrow> (Some e, st2)
                  | (None, st2) \<Rightarrow>
                      (let st3 = showNotification TicketClosed ''success'' st2;
                           st4 = loadAssignedTickets net (loadUnassignedTickets net st3);
                           st5 = hide_support_modal
                                   (st4\<lparr>supportTicketModal := (supportTicketModal st4)
                                          \<lparr>chatMessages := [], supportTicketDetails := None\<rparr>\<rparr>)
                       in (None, st5\<lparr>currentTicketId := None\<rparr>)))))"

text \<open>\<open>confirmed\<close> is the user's answer to the confirmation dialog.\<close>

definition closeTicket :: "network \<Rightarrow> bool \<Rightarrow> string option \<Rightarrow> state \<Rightarrow> state" where
  "closeTicket net confirmed ticketId st =
     (if \<not> truthy_id ticketId \<or> ticketId \<noteq> currentTicketId st then st
      else if \<not> confirmed then st
      else case closeTicket_try net ticketId st of
             (None, s) \<Rightarrow> s
           | (Some e, s) \<Rightarrow> showNotification (WhileClosing (message_of e)) ''error'' s)"

definition updatePriorityBtn_onclick :: "network \<Rightarrow> state \<Rightarrow> state" where
  "updatePriorityBtn_onclick net st =
     (if truthy_id (currentTicketId st) then updateTicketPriority net (currentTicketId st) st else st)"

definition closeTicketBtn_onclick :: "network \<Rightarrow> bool \<Rightarrow> state \<Rightarrow> state" where
  "closeTicketBtn_onclick net confirmed st =
     (if truthy_id (currentTicketId st) then closeTicket net confirmed (currentTicketId st) st else st)"


subsection \<open>A starting state and simple servers\<close>

text \<open>The state of a freshly loaded page: the module's initial values and an untouched
  document. \<open>signed_in\<close> is that page after the authentication check has read the stored
  token and user.\<close>

definition initial_state :: state where
  "initial_state =
     \<lparr>currentPage = 1, totalPages = 1, currentFilters = [], websocket = None, userEmail = [],
      currentUser = None, authToken = [], isSupportUser = JBool False, currentTicketId = None,
      currentAcceptTicketId = None, localStorage = [], storageLog = [],
      location_href = ''index.html'', requests = [], timers = [], notifications = [],
      loading = False, activeNav = None, activeSection = None, ticketsGrid = Untouched,
      ticketStats = \<lparr>totalTickets = 0, openTickets = 0, progressTickets = 0, resolvedTickets = 0\<rparr>,
      pagination = [],
      createForm = \<lparr>ticketTitle = [], ticketDescription = [], ticketCategory = [],
                    reporterName = [], reporterEmail = [], reporterName_readonly = False,
                    reporterEmail_readonly = False, submitTicket_disabled = False,
                    submitTicket_spinner = False\<rparr>,
      filters = \<lparr>statusFilter = [], categoryFilter = [], priorityFilter = [], searchInput = []\<rparr>,
      supportNav = 0, unassignedTicketsGrid = None, assignedTicketsGrid = None,
      profile = \<lparr>profile_full_name = [], profile_email = [], profile_role_support = False,
                 profileFullName = [], profileUsername = [], profileEmail = [],
                 user_tickets_count = 0, user_open_tickets = 0, user_resolved_tickets = 0\<rparr>,
      acceptTicketModal = \<lparr>accept_display = [], acceptPriority = []\<rparr>,
      supportTicketModal = \<lparr>modal_display = [], modal_active = False,
                            supportModalTicketTitle = [], supportTicketDetails = None,
                            chatMessages = [], chatInput = [], chatPriority = None\<rparr>,
      body_modal_open = False\<rparr>"

definition signed_in :: state where
  "signed_in =
     initial_state\<lparr>authToken := ''t0'',
                   currentUser := Some \<lparr>full_name = ''Ann'', email = ''ann@example.org'',
                                         username = ''ann'', is_support_staff = True\<rparr>,
                   userEmail := ''ann@example.org'',
                   localStorage := [(''auth_token'', ''t0''), (''user_data'', ''ann'')]\<rparr>"

definition respond :: "nat \<Rightarrow> payload \<Rightarrow> fetch_result" where
  "respond n p = Resolved \<lparr>status = n, body_text = [], body_json = p\<rparr>"

text \<open>A server that looks at the address of the request only.\<close>

definition by_url :: "(endpoint \<Rightarrow> fetch_result) \<Rightarrow> network" where
  "by_url f reqs = f (req_url (last reqs))"

definition ticket_with :: "string \<Rightarrow> string \<Rightarrow> ticket" where
  "ticket_with i s =
     \<lparr>ticket_id = i, title = ''Printer'', description = ''No toner'', category = ''hardware'',
      priority = priority_low, ticket_status = s, reporter_name = ''Ann'',
      reporter_email = ''ann@example.org'', created_at = ''2024-01-01'', comments_count = 0\<rparr>"

text \<open>Three servers and a state for the examples: a helpdesk that answers every
  request properly; one that accepts the assignment and answers everything else with 401;
  one that accepts the assignment, fails the update of the ticket with 500 and serves
  empty queues; and the page of a support agent with the accept dialog open on ticket
  \<^verbatim>\<open>T1\<close>.\<close>

definition helpdesk :: network where
  "helpdesk =
     by_url (\<lambda>u. case u of
                    TicketUrl i \<Rightarrow> respond 200 (TicketDetail (ticket_with i status_open))
                  | TicketMessagesUrl i \<Rightarrow> respond 200 (MessageList [])
                  | _ \<Rightarrow> respond 200 JsonOther)"




section \<open>Properties\<close>

subsection \<open>What a call through the gateway leaves behind\<close>

lemma gateway_result:
  "read_response (authorizedFetch net url opts st) =
     (case net (requests st @ [fetch_request st url opts]) of
        Rejected \<Rightarrow> (Inl (Engine FetchRejected), st\<lparr>requests := requests st @ [fetch_request st url opts]\<rparr>)
      | Resolved r \<Rightarrow>
          if status r = 401
          then (Inl (Engine TypeError),
                st\<lparr>requests := requests st @ [fetch_request st url opts],
                   localStorage := AList.delete ''user_data'' (AList.delete ''auth_token'' (localStorage st)),
                   storageLog := storageLog st @ [RemoveItem ''auth_token'', RemoveItem ''user_data''],
                   location_href := ''login.html''\<rparr>)
          else (Inr r, st\<lparr>requests := requests st @ [fetch_request st url opts]\<rparr>))"
  by (simp add: read_response_def authorizedFetch_def removeItem_def Let_def split: fetch_result.split)




lemma gateway_bad:
  assumes "net (requests st @ [fetch_request st url opts]) = Rejected
           \<or> (\<exists>r. net (requests st @ [fetch_request st url opts]) = Resolved r \<and> \<not> ok r)"
  shows "\<exists>e s1. read_response (authorizedFetch net url opts st) = (e, s1)
                \<and> (case e of Inl x \<Rightarrow> True | Inr r \<Rightarrow> \<not> ok r)"
  using assms by (auto simp add: gateway_result)

lemma ok_not_401: "ok r \<Longrightarrow> status r \<noteq> 401"
  by (simp add: ok_def)








lemma loadUserTickets_keeps:
  "currentPage (loadUserTickets net st) = currentPage st"
  "currentFilters (loadUserTickets net st) = currentFilters st"
  "createForm (loadUserTickets net st) = createForm st"
  "activeNav (loadUserTickets net st) = activeNav st"
  "activeSection (loadUserTickets net st) = activeSection st"
  "requests (loadUserTickets net st)
     = requests st @ [fetch_request st (TicketsQueryUrl (list_params st)) no_options]"
  by (simp_all add: loadUserTickets_def gateway_result showNotification_def showLoading_def json_def
        loadUserTickets_failed_def renderEmptyState_def renderTickets_def updateStats_def
        renderPagination_def Let_def fetch_request_def getAuthHeaders_def
        split: fetch_result.split payload.split)

subsection \<open>Trimming\<close>

lemma leading_Some:
  assumes "leading ws s = Some w"
  shows "w \<in> set ws" and "take (length w) s = w"
  using assms by (auto simp add: leading_def find_Some_iff)

lemma leading_None:
  assumes "leading ws s = None" and "w \<in> set ws"
  shows "take (length w) s \<noteq> w"
  using assms by (auto simp add: leading_def find_None_iff)

lemma strip_split: "\<exists>xs. set xs \<subseteq> set ws \<and> s = concat xs @ strip ws s"
proof (induction ws s rule: strip.induct)
  case (1 ws s)
  show ?case
  proof (cases "leading ws s")
    case None
    then have "strip ws s = s" by (simp add: strip.simps)
    then have "set [] \<subseteq> set ws \<and> s = concat [] @ strip ws s" by simp
    then show ?thesis by blast
  next
    case (Some w)
    show ?thesis
    proof (cases "w = []")
      case True
      with Some have "strip ws s = s" by (simp add: strip.simps)
      then have "set [] \<subseteq> set ws \<and> s = concat [] @ strip ws s" by simp
      then show ?thesis by blast
    next
      case False
      with Some 1 obtain xs where xs: "set xs \<subseteq> set ws"
        and rest: "drop (length w) s = concat xs @ strip ws (drop (length w) s)"
        by blast
      from Some False have unfold: "strip ws s = strip ws (drop (length w) s)"
        by (simp add: strip.simps)
      have "s = take (length w) s @ drop (length w) s" by simp
      also have "take (length w) s = w" using Some by (rule leading_Some)
      finally have "s = concat (w # xs) @ strip ws s"
        using rest unfold by simp
      moreover have "set (w # xs) \<subseteq> set ws"
        using xs leading_Some(1) [OF Some] by simp
      ultimately show ?thesis by blast
    qed
  qed
qed

lemma strip_no_leading:
  "[] \<notin> set ws \<Longrightarrow> leading ws (strip ws s) = None"
proof (induction ws s rule: strip.induct)
  case (1 ws s)
  show ?case
  proof (cases "leading ws s")
    case None
    then show ?thesis by (simp add: strip.simps)
  next
    case (Some w)
    with "1.prems" have "w \<noteq> []"
      using leading_Some(1) [OF Some] by auto
    with Some 1 show ?thesis by (simp add: strip.simps)
  qed
qed

lemma white_space_nonempty: "[] \<notin> set white_space" "[] \<notin> set (map rev white_space)"
  by (simp_all add: white_space_def)

lemma whites_rev:
  assumes "set xs \<subseteq> set (map rev white_space)"
  shows "whites (rev (concat xs))"
proof -
  have "rev (concat xs) = concat (map rev (rev xs))"
    by (simp add: rev_concat)
  moreover have "set (map rev (rev xs)) \<subseteq> set white_space"
  proof
    fix y assume "y \<in> set (map rev (rev xs))"
    then obtain x where x: "x \<in> set xs" and y: "y = rev x" by auto
    from x assms have "x \<in> set (map rev white_space)" by blast
    then obtain w where "w \<in> set white_space" and "x = rev w" by auto
    with y show "y \<in> set white_space" by simp
  qed
  ultimately have "set (map rev (rev xs)) \<subseteq> set white_space
                   \<and> concat (map rev (rev xs)) = rev (concat xs)"
    by simp
  then show ?thesis
    unfolding whites_def by (rule exI)
qed

lemma trim_split: "\<exists>pre post. s = pre @ trim s @ post \<and> whites pre \<and> whites post"
proof -
  obtain xs where xs: "set xs \<subseteq> set white_space"
    and front: "s = concat xs @ strip white_space s"
    using strip_split by blast
  obtain ys where ys: "set ys \<subseteq> set (map rev white_space)"
    and behind: "rev (strip white_space s)
               = concat ys @ strip (map rev white_space) (rev (strip white_space s))"
    using strip_split by blast
  from behind have "rev (rev (strip white_space s))
                    = rev (concat ys @ strip (map rev white_space) (rev (strip white_space s)))"
    by (rule arg_cong)
  then have "strip white_space s = trim s @ rev (concat ys)"
    by (simp add: trim_def)
  with front have "s = concat xs @ trim s @ rev (concat ys)" by simp
  moreover have "whites (concat xs)"
  proof -
    from xs have "set xs \<subseteq> set white_space \<and> concat xs = concat xs" by simp
    then show ?thesis unfolding whites_def by (rule exI)
  qed
  moreover have "whites (rev (concat ys))" using ys by (rule whites_rev)
  ultimately show ?thesis by blast
qed

lemma trim_ends: "\<not> ends_white (trim s)"
  using strip_no_leading [OF white_space_nonempty(2)]
  by (simp add: ends_white_def trim_def)

lemma trim_starts: "\<not> starts_white (trim s)"
proof
  assume "starts_white (trim s)"
  then obtain w where w: "leading white_space (trim s) = Some w"
    by (auto simp add: starts_white_def)
  obtain ys where behind: "rev (strip white_space s)
               = concat ys @ strip (map rev white_space) (rev (strip white_space s))"
    using strip_split by blast
  then have "rev (rev (strip white_space s))
                    = rev (concat ys @ strip (map rev white_space) (rev (strip white_space s)))"
    by (rule arg_cong)
  then have whole: "strip white_space s = trim s @ rev (concat ys)"
    by (simp add: trim_def)
  from leading_Some [OF w] have "w \<in> set white_space" and pre: "take (length w) (trim s) = w"
    by simp_all
  from pre have "length (take (length w) (trim s)) = length w" by simp
  then have "length w \<le> length (trim s)" by simp
  with pre whole have "take (length w) (strip white_space s) = w" by simp
  moreover have "leading white_space (strip white_space s) = None"
    using white_space_nonempty(1) by (rule strip_no_leading)
  ultimately show False
    using leading_None \<open>w \<in> set white_space\<close> by blast
qed

lemma trim_examples:
  "trim [CHR 0xC2, CHR 0xA0] = []"
  "trim ([CHR 0xC2, CHR 0xA0] @ ''ab'' @ '' '') = ''ab''"
  "trim ''  '' = []" "trim '' hello '' = ''hello''"
  by code_simp+

subsection \<open>The gateway\<close>

text \<open>
  Claim C3. For every call through \<^verbatim>\<open>authorizedFetch\<close> that the server answers: when
  the status is 401 the caller gets no value, the stored token and user data are gone,
  each removed by exactly one \<^verbatim>\<open>removeItem\<close>, and the page is sent to the login page;
  for every other status exactly one request was issued (no retry) and the caller gets
  the response as it came, whatever its status.
\<close>

theorem authorizedFetch_on_status:
  assumes "net (requests st @ [fetch_request st url opts]) = Resolved r"
  shows "if status r = 401
         then fst (authorizedFetch net url opts st) = Inr None
            \<and> map_of (localStorage (snd (authorizedFetch net url opts st))) ''auth_token'' = None
            \<and> map_of (localStorage (snd (authorizedFetch net url opts st))) ''user_data'' = None
            \<and> storageLog (snd (authorizedFetch net url opts st))
                = storageLog st @ [RemoveItem ''auth_token'', RemoveItem ''user_data'']
            \<and> location_href (snd (authorizedFetch net url opts st)) = ''login.html''
            \<and> requests (snd (authorizedFetch net url opts st))
                = requests st @ [fetch_request st url opts]
         else authorizedFetch net url opts st
                = (Inr (Some r), st\<lparr>requests := requests st @ [fetch_request st url opts]\<rparr>)"
  using assms
  by (simp add: authorizedFetch_def removeItem_def Let_def AList.delete_conv')

theorem authorizedFetch_on_status_witness:
  "fst (authorizedFetch (by_url (\<lambda>u. respond 401 NotJson)) SupportCheckUrl no_options signed_in)
     = Inr None
   \<and> map_of (localStorage (snd (authorizedFetch (by_url (\<lambda>u. respond 401 NotJson))
                                 SupportCheckUrl no_options signed_in))) ''auth_token'' = None
   \<and> location_href (snd (authorizedFetch (by_url (\<lambda>u. respond 401 NotJson))
                            SupportCheckUrl no_options signed_in)) = ''login.html''
   \<and> authorizedFetch (by_url (\<lambda>u. respond 500 NotJson)) SupportCheckUrl no_options signed_in
       = (Inr (Some \<lparr>status = 500, body_text = [], body_json = NotJson\<rparr>),
          signed_in\<lparr>requests := requests signed_in
                                   @ [fetch_request signed_in SupportCheckUrl no_options]\<rparr>)"
  using authorizedFetch_on_status [of "by_url (\<lambda>u. respond 401 NotJson)" signed_in SupportCheckUrl
          no_options "\<lparr>status = 401, body_text = [], body_json = NotJson\<rparr>"]
        authorizedFetch_on_status [of "by_url (\<lambda>u. respond 500 NotJson)" signed_in SupportCheckUrl
          no_options "\<lparr>status = 500, body_text = [], body_json = NotJson\<rparr>"]
  by (simp add: by_url_def respond_def)

subsection \<open>The guard of the ticket actions\<close>

text \<open>
  Claim C2. For every ticket id \<open>t\<close>: when \<open>t\<close> is null or differs from the support-session
  pointer, \<^verbatim>\<open>updateTicketPriority(t)\<close> and \<^verbatim>\<open>closeTicket(t)\<close> return the state they
  were given; in particular the list of requests is the same, so no network call was
  made.
\<close>

theorem stale_ticket_actions_do_nothing:
  assumes "t = None \<or> t \<noteq> currentTicketId st"
  shows "updateTicketPriority net t st = st \<and> closeTicket net confirmed t st = st
         \<and> requests (updateTicketPriority net t st) = requests st
         \<and> requests (closeTicket net confirmed t st) = requests st"
  using assms by (auto simp add: updateTicketPriority_def closeTicket_def truthy_id_def)

theorem stale_ticket_actions_do_nothing_witness:
  "updateTicketPriority (by_url (\<lambda>u. respond 200 JsonOther)) (Some ''T2'')
       (signed_in\<lparr>currentTicketId := Some ''T1''\<rparr>) = signed_in\<lparr>currentTicketId := Some ''T1''\<rparr>
   \<and> closeTicket (by_url (\<lambda>u. respond 200 JsonOther)) True None
       (signed_in\<lparr>currentTicketId := Some ''T1''\<rparr>) = signed_in\<lparr>currentTicketId := Some ''T1''\<rparr>"
  using stale_ticket_actions_do_nothing [of "Some ''T2''" "signed_in\<lparr>currentTicketId := Some ''T1''\<rparr>"
          "by_url (\<lambda>u. respond 200 JsonOther)" True]
        stale_ticket_actions_do_nothing [of None "signed_in\<lparr>currentTicketId := Some ''T1''\<rparr>"
          "by_url (\<lambda>u. respond 200 JsonOther)" True]
  by simp

subsection \<open>The support capability\<close>

text \<open>
  Claim C10. The support capability fails closed. Starting from the initial value false
  of \<^verbatim>\<open>isSupportUser\<close>: when the call to the check endpoint is rejected or answered
  with a status that is not ok, the flag is still false after \<^verbatim>\<open>checkSupportStatus\<close>,
  \<^verbatim>\<open>setupSupportInterface\<close> changes nothing (no tab, no section), and the two queue
  loaders return the state they were given, so without a request, whatever the server
  would have answered. The flag is true afterwards only if the endpoint answered ok with
  \<^verbatim>\<open>is_support\<close> true.
\<close>

theorem support_capability_is_fail_closed:
  assumes "isSupportUser st = JBool False"
  shows "(net (requests st @ [fetch_request st SupportCheckUrl no_options]) = Rejected
            \<or> (\<exists>r. net (requests st @ [fetch_request st SupportCheckUrl no_options]) = Resolved r
                    \<and> \<not> ok r)
          \<longrightarrow> isSupportUser (checkSupportStatus net st) = JBool False
              \<and> setupSupportInterface (checkSupportStatus net st) = checkSupportStatus net st
              \<and> loadUnassignedTickets net2 (checkSupportStatus net st) = checkSupportStatus net st
              \<and> loadAssignedTickets net2 (checkSupportStatus net st) = checkSupportStatus net st)
       \<and> (isSupportUser (checkSupportStatus net st) = JBool True
          \<longrightarrow> (\<exists>r. net (requests st @ [fetch_request st SupportCheckUrl no_options]) = Resolved r
                   \<and> ok r \<and> body_json r = SupportCheck (JBool True)))"
proof (intro conjI impI)
  assume fails: "net (requests st @ [fetch_request st SupportCheckUrl no_options]) = Rejected
            \<or> (\<exists>r. net (requests st @ [fetch_request st SupportCheckUrl no_options]) = Resolved r
                    \<and> \<not> ok r)"
  then have still: "isSupportUser (checkSupportStatus net st) = JBool False"
    using assms by (auto simp add: checkSupportStatus_def gateway_result)
  then show "isSupportUser (checkSupportStatus net st) = JBool False" .
  from still show "setupSupportInterface (checkSupportStatus net st) = checkSupportStatus net st"
    by (simp add: setupSupportInterface_def)
  from still show "loadUnassignedTickets net2 (checkSupportStatus net st) = checkSupportStatus net st"
    by (simp add: loadUnassignedTickets_def)
  from still show "loadAssignedTickets net2 (checkSupportStatus net st) = checkSupportStatus net st"
    by (simp add: loadAssignedTickets_def)
next
  assume "isSupportUser (checkSupportStatus net st) = JBool True"
  then show "\<exists>r. net (requests st @ [fetch_request st SupportCheckUrl no_options]) = Resolved r
                   \<and> ok r \<and> body_json r = SupportCheck (JBool True)"
    using assms
    by (auto simp add: checkSupportStatus_def gateway_result json_def is_support_of_def
          split: fetch_result.splits if_splits payload.splits)
qed

theorem support_capability_is_fail_closed_witness:
  "isSupportUser (checkSupportStatus (by_url (\<lambda>u. respond 403 JsonOther)) signed_in) = JBool False
   \<and> loadUnassignedTickets (by_url (\<lambda>u. respond 200 (TicketPage [] 1)))
        (checkSupportStatus (by_url (\<lambda>u. respond 403 JsonOther)) signed_in)
       = checkSupportStatus (by_url (\<lambda>u. respond 403 JsonOther)) signed_in
   \<and> isSupportUser (checkSupportStatus (by_url (\<lambda>u. respond 200 (SupportCheck (JBool True)))) signed_in)
       = JBool True"
  using support_capability_is_fail_closed [of signed_in "by_url (\<lambda>u. respond 403 JsonOther)"
          "by_url (\<lambda>u. respond 200 (TicketPage [] 1))"]
  by (simp add: by_url_def respond_def ok_def signed_in_def initial_state_def
        checkSupportStatus_def gateway_result json_def is_support_of_def)

subsection \<open>Filters and the order of the list\<close>

text \<open>
  Claim C6. For every content of the four filter controls, \<^verbatim>\<open>applyFilters\<close> builds the
  filter set anew: it has the status, category and priority exactly when the control is
  not empty, the search text exactly when the trimmed input is not empty (and then the
  trimmed text), and no other key. The trimmed text is the input without the white space
  at its two ends: the input is white space, the trimmed text, white space, and the
  trimmed text neither starts nor ends with white space. The current page is 1
  afterwards, and the one request the call issues, the re-fetch of the list, already asks
  for page 1 with the new filters.
\<close>

theorem applyFilters_rebuilds_and_resets:
  "currentPage (applyFilters net st) = 1
   \<and> map_of (currentFilters (applyFilters net st)) ''status''
       = (if statusFilter (filters st) = [] then None else Some (statusFilter (filters st)))
   \<and> map_of (currentFilters (applyFilters net st)) ''category''
       = (if categoryFilter (filters st) = [] then None else Some (categoryFilter (filters st)))
   \<and> map_of (currentFilters (applyFilters net st)) ''priority''
       = (if priorityFilter (filters st) = [] then None else Some (priorityFilter (filters st)))
   \<and> map_of (currentFilters (applyFilters net st)) ''search_text''
       = (if trim (searchInput (filters st)) = [] then None
          else Some (trim (searchInput (filters st))))
   \<and> (\<exists>pre post. searchInput (filters st) = pre @ trim (searchInput (filters st)) @ post
          \<and> whites pre \<and> whites post)
   \<and> \<not> starts_white (trim (searchInput (filters st)))
   \<and> \<not> ends_white (trim (searchInput (filters st)))
   \<and> fst ` set (currentFilters (applyFilters net st))
       \<subseteq> {''status'', ''category'', ''priority'', ''search_text''}
   \<and> requests (applyFilters net st)
       = requests st
         @ [fetch_request st
              (TicketsQueryUrl
                 (spread [(''reporter_email'', PStr (userEmail st)), (''page'', PNum 1),
                          (''page_size'', PNum 12)]
                    (map (\<lambda>(k, v). (k, PStr v)) (currentFilters (applyFilters net st)))))
              no_options]"
proof -
  have built: "currentPage (applyFilters net st) = 1
   \<and> map_of (currentFilters (applyFilters net st)) ''status''
       = (if statusFilter (filters st) = [] then None else Some (statusFilter (filters st)))
   \<and> map_of (currentFilters (applyFilters net st)) ''category''
       = (if categoryFilter (filters st) = [] then None else Some (categoryFilter (filters st)))
   \<and> map_of (currentFilters (applyFilters net st)) ''priority''
       = (if priorityFilter (filters st) = [] then None else Some (priorityFilter (filters st)))
   \<and> map_of (currentFilters (applyFilters net st)) ''search_text''
       = (if trim (searchInput (filters st)) = [] then None
          else Some (trim (searchInput (filters st))))
   \<and> fst ` set (currentFilters (applyFilters net st))
       \<subseteq> {''status'', ''category'', ''priority'', ''search_text''}
   \<and> requests (applyFilters net st)
       = requests st
         @ [fetch_request st
              (TicketsQueryUrl
                 (spread [(''reporter_email'', PStr (userEmail st)), (''page'', PNum 1),
                          (''page_size'', PNum 12)]
                    (map (\<lambda>(k, v). (k, PStr v)) (currentFilters (applyFilters net st)))))
              no_options]"
    by (simp add: applyFilters_def Let_def loadUserTickets_keeps list_params_def
          AList.update_conv' AList.dom_update fetch_request_def getAuthHeaders_def)
  with trim_split [of "searchInput (filters st)"] trim_starts [of "searchInput (filters st)"]
    trim_ends [of "searchInput (filters st)"]
  show ?thesis by blast
qed

theorem applyFilters_rebuilds_and_resets_witness:
  "map_of (currentFilters (applyFilters helpdesk
      (signed_in\<lparr>filters := (filters signed_in)\<lparr>searchInput := [CHR 0xC2, CHR 0xA0]\<rparr>\<rparr>)))
      ''search_text'' = None
   \<and> map_of (currentFilters (applyFilters helpdesk
      (signed_in\<lparr>filters := (filters signed_in)
                   \<lparr>searchInput := [CHR 0xC2, CHR 0xA0, CHR ''a'', CHR ''b'', CHR '' ''],
                    statusFilter := status_open\<rparr>\<rparr>))) ''search_text'' = Some ''ab''
   \<and> currentPage (applyFilters helpdesk
      (signed_in\<lparr>currentPage := 3,
                 filters := (filters signed_in)\<lparr>searchInput := [CHR 0xC2, CHR 0xA0]\<rparr>\<rparr>)) = 1"
proof -
  have trimmed: "trim [CHR 0xC2, CHR 0xA0, CHR ''a'', CHR ''b'', CHR '' ''] = ''ab''"
    using trim_examples(2) by simp
  show ?thesis
    using applyFilters_rebuilds_and_resets [of helpdesk
            "signed_in\<lparr>filters := (filters signed_in)\<lparr>searchInput := [CHR 0xC2, CHR 0xA0]\<rparr>\<rparr>"]
          applyFilters_rebuilds_and_resets [of helpdesk
            "signed_in\<lparr>filters := (filters signed_in)
                     \<lparr>searchInput := [CHR 0xC2, CHR 0xA0, CHR ''a'', CHR ''b'', CHR '' ''],
                      statusFilter := status_open\<rparr>\<rparr>"]
          applyFilters_rebuilds_and_resets [of helpdesk
            "signed_in\<lparr>currentPage := 3,
                   filters := (filters signed_in)\<lparr>searchInput := [CHR 0xC2, CHR 0xA0]\<rparr>\<rparr>"]
    by (simp add: trim_examples(1) trimmed)
qed
















subsection \<open>The creation form\<close>

text \<open>
  Claim C9. When the creation request is answered ok with a JSON body,
  \<^verbatim>\<open>handleTicketSubmit\<close> leaves the title, the category and the description empty, the
  reporter name and email (and their read-only marks) as they were, and the list tab
  (\<^verbatim>\<open>home\<close>) is the active tab; \<^verbatim>\<open>resetCreateForm\<close> by itself leaves the
  reporter fields alone.
\<close>

theorem ticket_creation_clears_editable_fields:
  assumes "net (requests st @
                 [fetch_request st TicketsUrl
                    \<lparr>opt_method = Some ''POST'', opt_headers = [],
                     opt_body = Some (TicketForm (ticketTitle (createForm st))
                                  (ticketDescription (createForm st)) (ticketCategory (createForm st))
                                  (reporterName (createForm st)) (reporterEmail (createForm st)))\<rparr>])
             = Resolved r"
    and "ok r" and "body_json r \<noteq> NotJson"
  shows "ticketTitle (createForm (handleTicketSubmit net st)) = []
       \<and> ticketCategory (createForm (handleTicketSubmit net st)) = []
       \<and> ticketDescription (createForm (handleTicketSubmit net st)) = []
       \<and> reporterName (createForm (handleTicketSubmit net st)) = reporterName (createForm st)
       \<and> reporterEmail (createForm (handleTicketSubmit net st)) = reporterEmail (createForm st)
       \<and> reporterName_readonly (createForm (handleTicketSubmit net st))
           = reporterName_readonly (createForm st)
       \<and> reporterEmail_readonly (createForm (handleTicketSubmit net st))
           = reporterEmail_readonly (createForm st)
       \<and> activeSection (handleTicketSubmit net st) = Some ''home''
       \<and> activeNav (handleTicketSubmit net st) = Some ''home''
       \<and> reporterName (createForm (resetCreateForm st)) = reporterName (createForm st)
       \<and> reporterEmail (createForm (resetCreateForm st)) = reporterEmail (createForm st)"
proof -
  have parsed: "json r = Inr (body_json r)"
    using assms(3) by (simp add: json_def split: payload.split)
  have "handleTicketSubmit_try net
          (st\<lparr>createForm := (createForm st)\<lparr>submitTicket_disabled := True, submitTicket_spinner := True\<rparr>\<rparr>)
        = (None,
           (setItem ''userEmail'' (reporterEmail (createForm st))
             (switchTab net ''home''
               (resetCreateForm
                 (st\<lparr>createForm := (createForm st)\<lparr>submitTicket_disabled := True, submitTicket_spinner := True\<rparr>,
                     requests := requests st @
                 [fetch_request st TicketsUrl
                    \<lparr>opt_method = Some ''POST'', opt_headers = [],
                     opt_body = Some (TicketForm (ticketTitle (createForm st))
                                  (ticketDescription (createForm st)) (ticketCategory (createForm st))
                                  (reporterName (createForm st)) (reporterEmail (createForm st)))\<rparr>]\<rparr>))))
             \<lparr>userEmail := reporterEmail (createForm st)\<rparr>)"
    using assms(1,2) parsed
    by (simp add: handleTicketSubmit_try_def gateway_result ok_not_401 Let_def
          fetch_request_def getAuthHeaders_def)
  then show ?thesis
    by (simp add: handleTicketSubmit_def Let_def setItem_def switchTab_def loadUserTickets_keeps
          resetCreateForm_def tab_exists_def)
qed

theorem ticket_creation_clears_editable_fields_witness:
  "createForm (handleTicketSubmit (by_url (\<lambda>u. respond 201 (TicketDetail (ticket_with ''a'' status_open))))
      (signed_in\<lparr>createForm := (createForm signed_in)
          \<lparr>ticketTitle := ''Printer'', ticketDescription := ''No toner'', ticketCategory := ''hardware'',
           reporterName := ''Ann'', reporterEmail := ''ann@example.org''\<rparr>\<rparr>))
   = (createForm signed_in)\<lparr>reporterName := ''Ann'', reporterEmail := ''ann@example.org''\<rparr>
   \<and> activeSection (handleTicketSubmit (by_url (\<lambda>u. respond 201 (TicketDetail (ticket_with ''a'' status_open))))
      (signed_in\<lparr>createForm := (createForm signed_in)
          \<lparr>ticketTitle := ''Printer'', ticketDescription := ''No toner'', ticketCategory := ''hardware'',
           reporterName := ''Ann'', reporterEmail := ''ann@example.org''\<rparr>\<rparr>)) = Some ''home''"
proof -
  let ?net = "by_url (\<lambda>u. respond 201 (TicketDetail (ticket_with ''a'' status_open)))"
  let ?st = "signed_in\<lparr>createForm := (createForm signed_in)
          \<lparr>ticketTitle := ''Printer'', ticketDescription := ''No toner'', ticketCategory := ''hardware'',
           reporterName := ''Ann'', reporterEmail := ''ann@example.org''\<rparr>\<rparr>"
  have facts: "ticketTitle (createForm (handleTicketSubmit ?net ?st)) = []
       \<and> ticketCategory (createForm (handleTicketSubmit ?net ?st)) = []
       \<and> ticketDescription (createForm (handleTicketSubmit ?net ?st)) = []
       \<and> reporterName (createForm (handleTicketSubmit ?net ?st)) = ''Ann''
       \<and> reporterEmail (createForm (handleTicketSubmit ?net ?st)) = ''ann@example.org''
       \<and> reporterName_readonly (createForm (handleTicketSubmit ?net ?st)) = False
       \<and> reporterEmail_readonly (createForm (handleTicketSubmit ?net ?st)) = False
       \<and> activeSection (handleTicketSubmit ?net ?st) = Some ''home''"
    using ticket_creation_clears_editable_fields [of ?net ?st
            "\<lparr>status = 201, body_text = [], body_json = TicketDetail (ticket_with ''a'' status_open)\<rparr>"]
    by (simp add: by_url_def respond_def ok_def signed_in_def initial_state_def)
  have flags: "submitTicket_disabled (createForm (handleTicketSubmit ?net ?st)) = False
       \<and> submitTicket_spinner (createForm (handleTicketSubmit ?net ?st)) = False"
    by (simp add: handleTicketSubmit_def Let_def signed_in_def initial_state_def)
  show ?thesis
    using facts flags by (simp add: signed_in_def initial_state_def form.equality)
qed

subsection \<open>The live-update channel\<close>

lemma channel_step_alive: "channel_alive st \<Longrightarrow> channel_alive (channel_step ev st)"
proof (cases ev)
  case SocketCloses
  assume "channel_alive st"
  then show ?thesis
    using SocketCloses
    by (auto simp add: channel_alive_def websocket_onclose_def Let_def split: option.splits)
next
  case (TimerFires throws)
  assume "channel_alive st"
  then show ?thesis
    using TimerFires
    by (auto simp add: channel_alive_def connectWebSocket_def split: option.splits list.splits callback.splits)
qed

lemma channel_run_alive: "channel_alive st \<Longrightarrow> channel_alive (channel_run evs st)"
  unfolding channel_run_def
  by (induction evs arbitrary: st) (simp_all add: channel_step_alive)

lemma channel_step_delays:
  "\<forall>t \<in> set (timers st). t = (ConnectWebSocket, 5000) \<or> t = (ConnectWebSocket, 10000) \<Longrightarrow>
   \<forall>t \<in> set (timers (channel_step ev st)). t = (ConnectWebSocket, 5000) \<or> t = (ConnectWebSocket, 10000)"
  by (cases ev)
     (auto simp add: websocket_onclose_def connectWebSocket_def Let_def
        split: option.splits list.splits callback.splits if_splits)

lemma channel_run_delays:
  "\<forall>t \<in> set (timers st). t = (ConnectWebSocket, 5000) \<or> t = (ConnectWebSocket, 10000) \<Longrightarrow>
   \<forall>t \<in> set (timers (channel_run evs st)). t = (ConnectWebSocket, 5000) \<or> t = (ConnectWebSocket, 10000)"
  unfolding channel_run_def
proof (induction evs arbitrary: st)
  case Nil
  then show ?case by simp
next
  case (Cons ev evs)
  from Cons.prems have "\<forall>t \<in> set (timers (channel_step ev st)). t = (ConnectWebSocket, 5000) \<or> t = (ConnectWebSocket, 10000)"
    by (rule channel_step_delays)
  then show ?case using Cons.IH by simp
qed

text \<open>
  Claim C7. The \<^verbatim>\<open>onclose\<close> handler asks for exactly one new attempt, in 5000 ms, and
  so does every close of an open socket the script made; a throwing constructor asks for
  exactly one, in 10000 ms. Started on a page with no timer pending, after any sequence
  of closes and timers (with the constructor throwing or not at each attempt) the channel
  is alive, that is, its socket is open with the handler in place or an attempt is
  scheduled, and every scheduled attempt has one of the two fixed delays.
\<close>

theorem channel_keeps_reconnecting:
  assumes "timers st = []"
  shows "timers (websocket_onclose st1) = timers st1 @ [(ConnectWebSocket, 5000)]
       \<and> timers (connectWebSocket True st1) = timers st1 @ [(ConnectWebSocket, 10000)]
       \<and> (\<forall>s. websocket st1 = Some s \<and> has_onclose s \<and> \<not> is_closed s
              \<longrightarrow> timers (channel_step SocketCloses st1) = timers st1 @ [(ConnectWebSocket, 5000)])
       \<and> websocket (connectWebSocket False st1) = Some \<lparr>has_onclose = True, is_closed = False\<rparr>
       \<and> channel_alive (channel_run evs (connectWebSocket throws st))
       \<and> (\<forall>t \<in> set (timers (channel_run evs (connectWebSocket throws st))).
             t = (ConnectWebSocket, 5000) \<or> t = (ConnectWebSocket, 10000))"
proof -
  have start: "channel_alive (connectWebSocket throws st)"
    by (simp add: channel_alive_def connectWebSocket_def)
  have delays: "\<forall>t \<in> set (timers (connectWebSocket throws st)).
                  t = (ConnectWebSocket, 5000) \<or> t = (ConnectWebSocket, 10000)"
    using assms by (simp add: connectWebSocket_def)
  show ?thesis
    using channel_run_alive [OF start, of evs] channel_run_delays [OF delays, of evs]
    by (auto simp add: websocket_onclose_def connectWebSocket_def Let_def)
qed

theorem channel_keeps_reconnecting_witness:
  "timers (channel_run [SocketCloses] (connectWebSocket False initial_state)) = [(ConnectWebSocket, 5000)]
   \<and> timers (channel_run [SocketCloses, TimerFires True] (connectWebSocket False initial_state))
       = [(ConnectWebSocket, 10000)]
   \<and> channel_alive (channel_run [SocketCloses, TimerFires True, TimerFires False, SocketCloses]
                       (connectWebSocket False initial_state))"
  using channel_keeps_reconnecting [of initial_state "connectWebSocket False initial_state"
          "[SocketCloses, TimerFires True, TimerFires False, SocketCloses]" False]
  by (simp add: initial_state_def channel_run_def connectWebSocket_def websocket_onclose_def Let_def)

subsection \<open>Sending a chat message\<close>




subsection \<open>The support-session pointer\<close>






















subsection \<open>Accepting a ticket\<close>

















end
